theory Spec2Isabelle
  imports Complex_Main
begin

section \<open>JavaScript values\<close>

text \<open>
  The observer (\<^verbatim>\<open>frontend/src/App.jsx\<close>) handles values that come out of
  \<^verbatim>\<open>JSON.parse\<close> and \<^verbatim>\<open>res.json()\<close>, and reads properties that may be absent.
  \<open>jsval\<close> holds those values: the JSON values and \<^verbatim>\<open>undefined\<close>, which an object
  literal may hold as a property. Every object in it is a plain object whose prototype is
  \<^verbatim>\<open>Object.prototype\<close>, and none of its properties is callable. A number is held as
  the text that JavaScript's ToString gives for it (the observer never computes with numbers).
\<close>

datatype jsval =
    JUndefined
  | JNull
  | JBool bool
  | JNum string
  | JStr string
  | JArr "jsval list"
  | JObj "(string \<times> jsval) list"

datatype js_error = SyntaxError | TypeError | InvalidStateError

text \<open>Joining strings with a separator, as \<^verbatim>\<open>Array.prototype.join\<close> does.\<close>

fun join :: "string \<Rightarrow> string list \<Rightarrow> string" where
  "join sep [] = []"
| "join sep [s] = s"
| "join sep (s # t # ts) = s @ sep @ join sep (t # ts)"

text \<open>
  The results of a list of conversions done in order: the first exception thrown, or all the
  strings.
\<close>

fun first_error :: "(js_error + string) list \<Rightarrow> js_error + string list" where
  "first_error [] = Inr []"
| "first_error (Inl e # rs) = Inl e"
| "first_error (Inr s # rs) = (case first_error rs of Inl e \<Rightarrow> Inl e | Inr ss \<Rightarrow> Inr (s # ss))"

text \<open>
  ToString, which a template literal and a computed property key apply. For an object it
  goes through \<^verbatim>\<open>toString\<close> and then \<^verbatim>\<open>valueOf\<close>. A plain object without an own
  \<^verbatim>\<open>toString\<close> inherits the one that gives \<^verbatim>\<open>[object Object]\<close>. With an own
  \<^verbatim>\<open>toString\<close>, which is not callable, the conversion turns to \<^verbatim>\<open>valueOf\<close>, which
  is either own and not callable or the inherited one that returns the object itself: no
  primitive is obtained and a TypeError is thrown. An array is its elements joined by commas,
  \<^verbatim>\<open>null\<close> and \<^verbatim>\<open>undefined\<close> elements giving the empty string and every other
  element its own ToString, whose exception is the array's.
\<close>

fun to_string :: "jsval \<Rightarrow> js_error + string" where
  "to_string JUndefined = Inr ''undefined''"
| "to_string JNull = Inr ''null''"
| "to_string (JBool b) = Inr (if b then ''true'' else ''false'')"
| "to_string (JNum t) = Inr t"
| "to_string (JStr s) = Inr s"
| "to_string (JArr xs) =
     (case first_error
             (map (\<lambda>x. if x = JUndefined \<or> x = JNull then Inr [] else to_string x) xs) of
        Inl e \<Rightarrow> Inl e
      | Inr ss \<Rightarrow> Inr (join '','' ss))"
| "to_string (JObj kvs) =
     (case map_of kvs ''toString'' of
        None \<Rightarrow> Inr ''[object Object]''
      | Some v \<Rightarrow> Inl TypeError)"

text \<open>ToBoolean, which \<^verbatim>\<open>||\<close> and \<^verbatim>\<open>&&\<close> apply to their left operand.\<close>

fun truthy :: "jsval \<Rightarrow> bool" where
  "truthy JUndefined = False"
| "truthy JNull = False"
| "truthy (JBool b) = b"
| "truthy (JNum t) = (t \<noteq> ''0'' \<and> t \<noteq> ''NaN'')"
| "truthy (JStr s) = (s \<noteq> [])"
| "truthy (JArr xs) = True"
| "truthy (JObj kvs) = True"

text \<open>
  Reading one of the properties \<^verbatim>\<open>type\<close>, \<^verbatim>\<open>url\<close>, \<^verbatim>\<open>content\<close> or
  \<^verbatim>\<open>file_path\<close>, none of which a built-in prototype defines: on \<^verbatim>\<open>null\<close> and
  \<^verbatim>\<open>undefined\<close> the read throws a TypeError, on an object it is the own property or
  \<^verbatim>\<open>undefined\<close>, on every other value it is \<^verbatim>\<open>undefined\<close>.
\<close>

fun get_prop :: "jsval \<Rightarrow> string \<Rightarrow> js_error + jsval" where
  "get_prop JUndefined k = Inl TypeError"
| "get_prop JNull k = Inl TypeError"
| "get_prop (JObj kvs) k = Inr (case map_of kvs k of None \<Rightarrow> JUndefined | Some v \<Rightarrow> v)"
| "get_prop v k = Inr JUndefined"

section \<open>The observer's state\<close>

text \<open>
  The component \<^verbatim>\<open>App\<close> holds seven state variables and the reference
  \<^verbatim>\<open>wsRef\<close>. A state setter is modelled as the update it queues, in program order.
  WebSocket objects live in a store keyed by a number, so that \<^verbatim>\<open>wsRef.current\<close> and the
  browser refer to the same socket; \<open>sent\<close> lists the objects whose
  \<^verbatim>\<open>JSON.stringify\<close> text the socket has transmitted.
\<close>

datatype readyState = CONNECTING | OPEN | CLOSING | CLOSED

record websocket =
  ws_url :: string
  readyState :: readyState
  sent :: "jsval list"

record js_file =
  name :: string
  bytes :: "nat list"

record log =
  type :: jsval
  content :: jsval
  timestamp :: string

record app =
  connected :: bool
  logs :: "log list"
  imageFile :: "js_file option"
  previewUrl :: "string option"
  zoomedImage :: "string option"
  loading :: bool
  autoScroll :: bool
  wsRef :: "nat option"
  sockets :: "nat \<Rightarrow> websocket option"
  next_socket :: nat

text \<open>The state at mount, before the effect that calls \<^verbatim>\<open>connect\<close> has run.\<close>

definition initial :: app where
  "initial = \<lparr>connected = False, logs = [], imageFile = None, previewUrl = None,
     zoomedImage = None, loading = False, autoScroll = True, wsRef = None,
     sockets = (\<lambda>i. None), next_socket = 0\<rparr>"

text \<open>
  \<^verbatim>\<open>addLog(type, content)\<close> appends one entry; \<open>now\<close> is what
  \<^verbatim>\<open>new Date().toLocaleTimeString()\<close> returns at the call.
\<close>

definition addLog :: "string \<Rightarrow> jsval \<Rightarrow> jsval \<Rightarrow> app \<Rightarrow> app" where
  "addLog now t c a = a\<lparr>logs := logs a @ [\<lparr>type = t, content = c, timestamp = now\<rparr>]\<rparr>"

text \<open>
  \<^verbatim>\<open>connect\<close>: returns at once when the current socket is OPEN; otherwise creates a
  socket (CONNECTING) and stores it in \<^verbatim>\<open>wsRef.current\<close>. The four handlers it
  installs are the functions \<open>onopen\<close>, \<open>onmessage\<close>, \<open>onclose\<close> and \<open>onerror\<close> below.
\<close>

definition current_open :: "app \<Rightarrow> bool" where
  "current_open a =
     (case wsRef a of None \<Rightarrow> False
      | Some i \<Rightarrow> (case sockets a i of None \<Rightarrow> False | Some ws \<Rightarrow> readyState ws = OPEN))"

definition connect :: "app \<Rightarrow> app" where
  "connect a =
     (if current_open a then a
      else a\<lparr>wsRef := Some (next_socket a),
             sockets := (sockets a)(next_socket a \<mapsto>
               \<lparr>ws_url = ''ws://localhost:8000/ws'', readyState = CONNECTING, sent = []\<rparr>),
             next_socket := Suc (next_socket a)\<rparr>)"

text \<open>
  The handlers that \<^verbatim>\<open>connect\<close> installs on the socket. \<open>onopen\<close> starts from a clean
  slate: it empties the log list.
\<close>

definition onopen :: "app \<Rightarrow> app" where
  "onopen a = a\<lparr>connected := True, logs := []\<rparr>"

text \<open>
  \<open>onmessage\<close> takes the outcome of \<^verbatim>\<open>JSON.parse(event.data)\<close>: \<open>None\<close> when the
  text is not JSON (a SyntaxError is thrown). The template literal of the
  \<^verbatim>\<open>new_image\<close> branch converts \<^verbatim>\<open>data.url\<close> to a string before any setter is
  called. An exception leaves the handler, and the state is as it was: \<open>Inl\<close>.
\<close>

definition onmessage :: "string \<Rightarrow> jsval option \<Rightarrow> app \<Rightarrow> js_error + app" where
  "onmessage now parsed a =
     (case parsed of
        None \<Rightarrow> Inl SyntaxError
      | Some data \<Rightarrow>
          (case get_prop data ''type'' of
             Inl e \<Rightarrow> Inl e
           | Inr ty \<Rightarrow>
               if ty = JStr ''new_image'' then
                 (case get_prop data ''url'' of
                    Inl e \<Rightarrow> Inl e
                  | Inr u \<Rightarrow>
                      (case to_string u of
                         Inl e \<Rightarrow> Inl e
                       | Inr path \<Rightarrow>
                           Inr (addLog now (JStr ''tool_result'') (JStr ''Received High-Res Crop.'')
                                  (a\<lparr>zoomedImage := Some (''http://localhost:8000'' @ path)\<rparr>))))
               else if ty = JStr ''session_end'' then
                 (case get_prop data ''content'' of
                    Inl e \<Rightarrow> Inl e
                  | Inr c \<Rightarrow> Inr (addLog now (JStr ''system'') c (a\<lparr>loading := False\<rparr>)))
               else
                 (case get_prop data ''content'' of
                    Inl e \<Rightarrow> Inl e
                  | Inr c \<Rightarrow> Inr (addLog now ty c a))))"

definition onclose :: "string \<Rightarrow> app \<Rightarrow> app" where
  "onclose now a =
     (addLog now (JStr ''error'') (JStr ''Connection Lost. Reconnect required.'')
        (a\<lparr>connected := False\<rparr>))\<lparr>loading := False\<rparr>"

definition onerror :: "string \<Rightarrow> app \<Rightarrow> app" where
  "onerror now a = (addLog now (JStr ''error'') (JStr ''Connection Error.'') a)\<lparr>loading := False\<rparr>"

text \<open>
  \<^verbatim>\<open>handleFileSelect\<close>: \<open>picked\<close> is \<^verbatim>\<open>e.target.files[0]\<close> (\<open>None\<close> when the
  list is empty) and \<open>blob\<close> the URL that \<^verbatim>\<open>URL.createObjectURL\<close> returns.
\<close>

definition handleFileSelect :: "string \<Rightarrow> string \<Rightarrow> js_file option \<Rightarrow> app \<Rightarrow> app" where
  "handleFileSelect now blob picked a =
     (case picked of
        None \<Rightarrow> a
      | Some f \<Rightarrow>
          addLog now (JStr ''user'') (JStr (''Image selected: '' @ name f))
            (a\<lparr>imageFile := Some f, previewUrl := Some blob\<rparr>))"

section \<open>Starting an investigation\<close>

text \<open>
  \<^verbatim>\<open>WebSocket.send\<close> as the browser defines it: an InvalidStateError while the socket is
  CONNECTING, transmission while it is OPEN, and nothing once it is CLOSING or CLOSED.
\<close>

definition ws_send :: "websocket \<Rightarrow> jsval \<Rightarrow> js_error + websocket" where
  "ws_send ws frame =
     (case readyState ws of
        CONNECTING \<Rightarrow> Inl InvalidStateError
      | OPEN \<Rightarrow> Inr (ws\<lparr>sent := sent ws @ [frame]\<rparr>)
      | CLOSING \<Rightarrow> Inr ws
      | CLOSED \<Rightarrow> Inr ws)"

record http_request =
  http_method :: string
  http_url :: string
  form_data :: "(string \<times> js_file) list"

text \<open>
  How the awaited upload settles: \<open>Rejected\<close> when \<^verbatim>\<open>fetch\<close> rejects,
  \<open>Responded None\<close> when \<^verbatim>\<open>res.json()\<close> rejects (the body is not JSON),
  \<open>Responded (Some v)\<close> when the body parses to \<open>v\<close>.
\<close>

datatype fetch_outcome = Rejected | Responded "jsval option"

text \<open>
  \<^verbatim>\<open>startInvestigation\<close> is an async function with one suspension point, the awaited
  upload. \<open>startInvestigation_begin\<close> is the part that runs before it, up to and including
  the call of \<^verbatim>\<open>fetch\<close>: it returns the new state and the request issued, if any.
  \<open>startInvestigation_resume\<close> is the part that runs once the upload has settled, on the
  state of that moment.
\<close>

definition startInvestigation_begin :: "app \<Rightarrow> app \<times> http_request option" where
  "startInvestigation_begin a =
     (case imageFile a of
        None \<Rightarrow> (a, None)
      | Some f \<Rightarrow>
          if \<not> connected a then (a, None)
          else (a\<lparr>loading := True, logs := [], zoomedImage := None\<rparr>,
                Some \<lparr>http_method = ''POST'', http_url = ''http://localhost:8000/upload'',
                      form_data = [(''file'', f)]\<rparr>))"

definition upload_failed :: "string \<Rightarrow> app \<Rightarrow> app" where
  "upload_failed now a = (addLog now (JStr ''error'') (JStr ''Upload Failed.'') a)\<lparr>loading := False\<rparr>"

definition startInvestigation_resume :: "string \<Rightarrow> fetch_outcome \<Rightarrow> app \<Rightarrow> app" where
  "startInvestigation_resume now outcome a =
     (case outcome of
        Rejected \<Rightarrow> upload_failed now a
      | Responded None \<Rightarrow> upload_failed now a
      | Responded (Some data) \<Rightarrow>
          (case get_prop data ''file_path'' of
             Inl e \<Rightarrow> upload_failed now a
           | Inr fp \<Rightarrow>
               (case wsRef a of
                  None \<Rightarrow> upload_failed now a
                | Some i \<Rightarrow>
                    (case sockets a i of
                       None \<Rightarrow> upload_failed now a
                     | Some ws \<Rightarrow>
                         (case ws_send ws (JObj [(''file_path'', fp)]) of
                            Inl e \<Rightarrow> upload_failed now a
                          | Inr ws' \<Rightarrow> a\<lparr>sockets := (sockets a)(i \<mapsto> ws')\<rparr>)))))"

text \<open>
  The whole of \<^verbatim>\<open>startInvestigation\<close> when no other handler runs while the upload is
  awaited; \<open>upload\<close> is the upload boundary answering the request.
\<close>

definition startInvestigation :: "string \<Rightarrow> (http_request \<Rightarrow> fetch_outcome) \<Rightarrow> app \<Rightarrow> app" where
  "startInvestigation now upload a =
     (case startInvestigation_begin a of
        (a', None) \<Rightarrow> a'
      | (a', Some rq) \<Rightarrow> startInvestigation_resume now (upload rq) a')"

text \<open>The frames transmitted so far on socket \<open>i\<close>.\<close>

definition sent_on :: "app \<Rightarrow> nat \<Rightarrow> jsval list" where
  "sent_on a i = (case sockets a i of None \<Rightarrow> [] | Some ws \<Rightarrow> sent ws)"

section \<open>Rendering a log line\<close>

text \<open>
  \<^verbatim>\<open>styles\<close> is an object literal: its seven own properties, and behind them the
  properties it inherits from \<^verbatim>\<open>Object.prototype\<close>, which \<^verbatim>\<open>styles[type]\<close>
  finds as well. \<open>member\<close> is what such a read can give: a plain value, a built-in
  function (by its name), or \<^verbatim>\<open>Object.prototype\<close> itself.
\<close>

definition styles :: "(string \<times> string) list" where
  "styles =
     [(''system'', ''text-magma-600 font-bold''),
      (''user'', ''text-stone-400''),
      (''agent_thought'', ''text-magma-100''),
      (''tool_call'', ''text-amber-500''),
      (''tool_result'', ''text-emerald-500''),
      (''error'', ''text-red-500 bg-red-900/10''),
      (''turn_start'',
       ''text-magma-400 font-bold pt-4 border-b border-magma-900/30 mb-2 inline-block w-full'')]"

datatype member = Plain jsval | NativeFunction string | ObjectPrototype

definition object_prototype :: "(string \<times> member) list" where
  "object_prototype =
     [(''constructor'', NativeFunction ''Object''),
      (''__defineGetter__'', NativeFunction ''__defineGetter__''),
      (''__defineSetter__'', NativeFunction ''__defineSetter__''),
      (''hasOwnProperty'', NativeFunction ''hasOwnProperty''),
      (''__lookupGetter__'', NativeFunction ''__lookupGetter__''),
      (''__lookupSetter__'', NativeFunction ''__lookupSetter__''),
      (''isPrototypeOf'', NativeFunction ''isPrototypeOf''),
      (''propertyIsEnumerable'', NativeFunction ''propertyIsEnumerable''),
      (''toString'', NativeFunction ''toString''),
      (''valueOf'', NativeFunction ''valueOf''),
      (''__proto__'', ObjectPrototype),
      (''toLocaleString'', NativeFunction ''toLocaleString'')]"

text \<open>\<^verbatim>\<open>styles[key]\<close> for a key that is already a string: own properties first.\<close>

definition styles_lookup :: "string \<Rightarrow> member" where
  "styles_lookup key =
     (case map_of styles key of
        Some s \<Rightarrow> Plain (JStr s)
      | None \<Rightarrow>
          (case map_of object_prototype key of
             Some v \<Rightarrow> v
           | None \<Rightarrow> Plain JUndefined))"

text \<open>
  ToBoolean and ToString of what the lookup gives. A built-in function is truthy and its
  string is its native source text (the form V8 prints); \<^verbatim>\<open>Object.prototype\<close> is
  truthy and its string is \<^verbatim>\<open>[object Object]\<close>.
\<close>

fun member_truthy :: "member \<Rightarrow> bool" where
  "member_truthy (Plain v) = truthy v"
| "member_truthy (NativeFunction n) = True"
| "member_truthy ObjectPrototype = True"

fun member_to_string :: "member \<Rightarrow> js_error + string" where
  "member_to_string (Plain v) = to_string v"
| "member_to_string (NativeFunction n) = Inr (''function '' @ n @ ''() { [native code] }'')"
| "member_to_string ObjectPrototype = Inr ''[object Object]''"

definition js_or :: "member \<Rightarrow> member \<Rightarrow> member" where
  "js_or a b = (if member_truthy a then a else b)"

text \<open>The element a component returns: its class attribute and its child.\<close>

record element =
  className :: string
  children :: jsval

text \<open>
  \<^verbatim>\<open>LogEntry\<close>: the key of \<^verbatim>\<open>styles[type]\<close> is ToString of \<open>type\<close>, and the
  template literal converts the chosen style to a string; an exception thrown by either
  leaves the component.
\<close>

definition LogEntry :: "log \<Rightarrow> js_error + element" where
  "LogEntry l =
     (case to_string (type l) of
        Inl e \<Rightarrow> Inl e
      | Inr key \<Rightarrow>
          (case member_to_string (js_or (styles_lookup key) (Plain (JStr ''text-gray-400''))) of
             Inl e \<Rightarrow> Inl e
           | Inr style \<Rightarrow>
               Inr \<lparr>className =
                      style @ '' whitespace-pre-wrap break-words font-mono leading-relaxed'',
                    children = content l\<rparr>))"

section \<open>The observer as a transition system\<close>

text \<open>
  What can happen to the mounted component. The browser changes a socket's
  \<^verbatim>\<open>readyState\<close> before it calls \<^verbatim>\<open>onopen\<close> or \<^verbatim>\<open>onclose\<close>.
  An event carries what the handler reads from its environment: the clock, the parsed
  message, the chosen file.
\<close>

datatype event =
    Connect
  | WsOpen nat
  | WsMessage string "jsval option"
  | WsClose nat string
  | WsError string
  | FileSelect string string "js_file option"
  | StartInvestigation
  | UploadSettled string fetch_outcome
  | ToggleAutoScroll

definition set_readyState :: "nat \<Rightarrow> readyState \<Rightarrow> app \<Rightarrow> app" where
  "set_readyState i r a =
     (case sockets a i of
        None \<Rightarrow> a
      | Some ws \<Rightarrow> a\<lparr>sockets := (sockets a)(i \<mapsto> ws\<lparr>readyState := r\<rparr>)\<rparr>)"

fun step :: "app \<Rightarrow> event \<Rightarrow> app" where
  "step a Connect = connect a"
| "step a (WsOpen i) = onopen (set_readyState i OPEN a)"
| "step a (WsMessage now parsed) = (case onmessage now parsed a of Inl e \<Rightarrow> a | Inr a' \<Rightarrow> a')"
| "step a (WsClose i now) = onclose now (set_readyState i CLOSED a)"
| "step a (WsError now) = onerror now a"
| "step a (FileSelect now blob picked) = handleFileSelect now blob picked a"
| "step a StartInvestigation = fst (startInvestigation_begin a)"
| "step a (UploadSettled now outcome) = startInvestigation_resume now outcome a"
| "step a ToggleAutoScroll = a\<lparr>autoScroll := \<not> autoScroll a\<rparr>"

definition run :: "app \<Rightarrow> event list \<Rightarrow> app" where
  "run a es = foldl step a es"

text \<open>
  The log entry that \<open>onmessage\<close> appends for a message whose data parsed to \<open>data\<close>, read
  off the three branches of the handler; \<open>field\<close> is a property read that found a value.
\<close>

definition field :: "jsval \<Rightarrow> string \<Rightarrow> jsval" where
  "field data k = (case get_prop data k of Inl e \<Rightarrow> JUndefined | Inr v \<Rightarrow> v)"




section \<open>The session core\<close>

text \<open>
  The Session Orchestrator, the Tool Registry and the crop tool run in the backend, whose
  code is not among the source files at hand (they hold the observer only). This section
  follows the specification's sections 3, 4.1, 4.2 and 6 instead. Coordinates and pixel
  dimensions are rationals: the rescale is an exact proportional mapping and no rounding is
  specified. Timestamps and creation times are left out.
\<close>

text \<open>Modelled from the spec: the bounding region \<^verbatim>\<open>{x,y,w,h}\<close> of a crop request.\<close>

record region =
  reg_x :: rat
  reg_y :: rat
  reg_w :: rat
  reg_h :: rat

text \<open>Modelled from the spec: ImageReference, a handle to image bytes plus its pixel dimensions.\<close>

record image_reference =
  handle :: string
  width :: rat
  height :: rat

text \<open>Modelled from the spec: the payload of a ToolResult, text or a new image reference.\<close>

datatype payload = TextPayload string | ImagePayload image_reference

text \<open>Modelled from the spec: ToolResult (originating tool name, success flag, payload).\<close>

record tool_result =
  origin :: string
  success :: bool
  result_payload :: payload

text \<open>
  Modelled from the spec: the argument mapping of a ToolCallRequest, an untyped payload
  checked at dispatch time.
\<close>

datatype arg_value = ANum rat | AText string | AMap "(string \<times> arg_value) list"

text \<open>Modelled from the spec: ToolCallRequest (tool name, argument mapping).\<close>

record tool_call_request =
  tool_name :: string
  arguments :: "(string \<times> arg_value) list"

text \<open>Modelled from the spec: the role of a Turn.\<close>

datatype role = User | Model | Tool

text \<open>
  Modelled from the spec: the content of a Turn, free text, a tool-call request or a
  tool-result payload.
\<close>

datatype turn_content = Text string | Request tool_call_request | Result tool_result

text \<open>Modelled from the spec: Turn, one exchange unit of the conversation history.\<close>

record turn =
  turn_role :: role
  turn_body :: turn_content

text \<open>Modelled from the spec: the closed set of event kinds of section 6.\<close>

datatype event_kind =
    EvSystem | EvUser | EvAgentThought | EvToolCall | EvToolResult
  | EvNewImage | EvTurnStart | EvError | EvSessionEnd

text \<open>Modelled from the spec: TranscriptEvent, an event kind and its content.\<close>

record transcript_event =
  ev_kind :: event_kind
  ev_content :: string

text \<open>Modelled from the spec: the states of the orchestrator's state machine (section 4.1).\<close>

datatype session_state = Idle | AwaitingModel | DispatchingTool | Complete | Failed | Aborted

text \<open>
  Modelled from the spec: Session. \<open>emitted\<close> is the event channel, in emission order;
  \<open>model_calls\<close> counts the calls made to the Model Client.
\<close>

record session =
  target :: image_reference
  history :: "turn list"
  state :: session_state
  emitted :: "transcript_event list"
  model_calls :: nat

text \<open>
  Modelled from the spec: what the Model Client returns, free-text reasoning, a structured
  tool request, or a failure once its retry budget is exhausted.
\<close>

datatype model_response = Reasoning string | ToolCall tool_call_request | ModelFailed

text \<open>Modelled from the spec: the capabilities the Tool Registry knows.\<close>

datatype tool = CropTool | SearchTool

text \<open>
  Modelled from the spec: the collaborators and the configuration of one orchestrator. The
  Model Client and the Search Client are black boxes (\<open>None\<close> from the Search Client: the
  call failed or timed out); \<open>is_final\<close> recognises the final-answer marker;
  \<open>derive_handle\<close> is the Image Store naming a derivative; \<open>shown_width\<close> and
  \<open>shown_height\<close> are the dimensions of the view the model was shown.
\<close>

record core_env =
  registry :: "string \<Rightarrow> tool option"
  model_client :: "turn list \<Rightarrow> model_response"
  search_client :: "string \<Rightarrow> string list option"
  is_final :: "string \<Rightarrow> bool"
  derive_handle :: "image_reference \<Rightarrow> region \<Rightarrow> string"
  shown_width :: rat
  shown_height :: rat
  top_n :: nat
  max_turns :: nat
  prompt :: string

subsection \<open>Coordinate rescaling and the crop tool\<close>

text \<open>
  Modelled from the spec: the proportional mapping
  \<^verbatim>\<open>true_coord = model_coord * (true_dimension / shown_dimension)\<close>.
\<close>

definition rescale :: "rat \<Rightarrow> rat \<Rightarrow> rat \<Rightarrow> rat" where
  "rescale true_dimension shown_dimension model_coord =
     model_coord * (true_dimension / shown_dimension)"

text \<open>Modelled from the spec: the mapping applied per axis, widths to \<open>x\<close> and \<open>w\<close>, heights to \<open>y\<close> and \<open>h\<close>.\<close>

definition rescale_region :: "core_env \<Rightarrow> image_reference \<Rightarrow> region \<Rightarrow> region" where
  "rescale_region env src r =
     \<lparr>reg_x = rescale (width src) (shown_width env) (reg_x r),
      reg_y = rescale (height src) (shown_height env) (reg_y r),
      reg_w = rescale (width src) (shown_width env) (reg_w r),
      reg_h = rescale (height src) (shown_height env) (reg_h r)\<rparr>"

text \<open>
  Modelled from the spec: clamping to the image bounds. The near corner is brought inside the
  image, the far corner is cut at the image's edge, and the extent is at least one pixel.
\<close>

definition clamp_region :: "image_reference \<Rightarrow> region \<Rightarrow> region" where
  "clamp_region src r =
     (let left = max 0 (min (reg_x r) (width src - 1));
          top = max 0 (min (reg_y r) (height src - 1));
          right = max (left + 1) (min (reg_x r + reg_w r) (width src));
          bottom = max (top + 1) (min (reg_y r + reg_h r) (height src))
      in \<lparr>reg_x = left, reg_y = top, reg_w = right - left, reg_h = bottom - top\<rparr>)"

text \<open>Modelled from the spec: the pixel region the crop tool executes, rescaled and then clamped.\<close>

definition crop_region :: "core_env \<Rightarrow> image_reference \<Rightarrow> region \<Rightarrow> region" where
  "crop_region env src r = clamp_region src (rescale_region env src r)"

text \<open>Modelled from the spec: a region lies within an image and is at least one pixel wide and high.\<close>

definition valid_subregion :: "image_reference \<Rightarrow> region \<Rightarrow> bool" where
  "valid_subregion src r \<longleftrightarrow>
     0 \<le> reg_x r \<and> 0 \<le> reg_y r \<and> 1 \<le> reg_w r \<and> 1 \<le> reg_h r \<and>
     reg_x r + reg_w r \<le> width src \<and> reg_y r + reg_h r \<le> height src"

text \<open>Modelled from the spec: a required numeric field of an argument mapping.\<close>

definition num_field :: "(string \<times> arg_value) list \<Rightarrow> string \<Rightarrow> rat option" where
  "num_field m k = (case map_of m k of Some (ANum v) \<Rightarrow> Some v | _ \<Rightarrow> None)"

text \<open>
  Modelled from the spec: the crop tool's argument validation, a \<^verbatim>\<open>region\<close> mapping
  with numeric \<^verbatim>\<open>x\<close>, \<^verbatim>\<open>y\<close>, \<^verbatim>\<open>w\<close>, \<^verbatim>\<open>h\<close>; extra fields are ignored.
\<close>

definition region_arg :: "(string \<times> arg_value) list \<Rightarrow> region option" where
  "region_arg args =
     (case map_of args ''region'' of
        Some (AMap m) \<Rightarrow>
          (case (num_field m ''x'', num_field m ''y'', num_field m ''w'', num_field m ''h'') of
             (Some x, Some y, Some w, Some h) \<Rightarrow> Some \<lparr>reg_x = x, reg_y = y, reg_w = w, reg_h = h\<rparr>
           | _ \<Rightarrow> None)
      | _ \<Rightarrow> None)"

text \<open>Modelled from the spec: the Image Store deriving a cropped sub-image, a new reference with its own dimensions.\<close>

definition derive :: "core_env \<Rightarrow> image_reference \<Rightarrow> region \<Rightarrow> image_reference" where
  "derive env src r = \<lparr>handle = derive_handle env src r, width = reg_w r, height = reg_h r\<rparr>"

text \<open>Modelled from the spec: the Zoom/Crop tool.\<close>

definition crop_tool :: "core_env \<Rightarrow> image_reference \<Rightarrow> tool_call_request \<Rightarrow> tool_result" where
  "crop_tool env src rq =
     (case region_arg (arguments rq) of
        None \<Rightarrow> \<lparr>origin = tool_name rq, success = False,
                 result_payload = TextPayload ''malformed arguments: region {x,y,w,h} required''\<rparr>
      | Some r \<Rightarrow> \<lparr>origin = tool_name rq, success = True,
                   result_payload = ImagePayload (derive env src (crop_region env src r))\<rparr>)"

text \<open>Modelled from the spec: the Search/Verify tool, the top-N snippets concatenated, or a failure payload.\<close>

definition search_tool :: "core_env \<Rightarrow> tool_call_request \<Rightarrow> tool_result" where
  "search_tool env rq =
     (case map_of (arguments rq) ''query'' of
        Some (AText q) \<Rightarrow>
          (case search_client env q of
             None \<Rightarrow> \<lparr>origin = tool_name rq, success = False,
                      result_payload = TextPayload ''search failed or timed out''\<rparr>
           | Some snippets \<Rightarrow> \<lparr>origin = tool_name rq, success = True,
                               result_payload = TextPayload (concat (take (top_n env) snippets))\<rparr>)
      | _ \<Rightarrow> \<lparr>origin = tool_name rq, success = False,
               result_payload = TextPayload ''malformed arguments: query required''\<rparr>)"

text \<open>
  Modelled from the spec: \<^verbatim>\<open>execute(name, args) -> ToolResult\<close>; an unknown tool name
  yields a ToolResult marked failure with an explanatory payload.
\<close>

definition execute :: "core_env \<Rightarrow> image_reference \<Rightarrow> tool_call_request \<Rightarrow> tool_result" where
  "execute env src rq =
     (case registry env (tool_name rq) of
        None \<Rightarrow> \<lparr>origin = tool_name rq, success = False,
                 result_payload = TextPayload (''unknown tool: '' @ tool_name rq)\<rparr>
      | Some CropTool \<Rightarrow> crop_tool env src rq
      | Some SearchTool \<Rightarrow> search_tool env rq)"

subsection \<open>The turn loop\<close>

text \<open>Modelled from the spec: appending a turn to the append-only history.\<close>

definition append_turn :: "role \<Rightarrow> turn_content \<Rightarrow> session \<Rightarrow> session" where
  "append_turn r c s = s\<lparr>history := history s @ [\<lparr>turn_role = r, turn_body = c\<rparr>]\<rparr>"

text \<open>Modelled from the spec: emitting a transcript event on the session's event channel.\<close>

definition emit :: "event_kind \<Rightarrow> string \<Rightarrow> session \<Rightarrow> session" where
  "emit k c s = s\<lparr>emitted := emitted s @ [\<lparr>ev_kind = k, ev_content = c\<rparr>]\<rparr>"

text \<open>Modelled from the spec: the outcome text of a tool execution, carried by \<^verbatim>\<open>tool_result\<close>.\<close>

definition outcome_text :: "tool_result \<Rightarrow> string" where
  "outcome_text r = (case result_payload r of TextPayload t \<Rightarrow> t | ImagePayload i \<Rightarrow> handle i)"

text \<open>Modelled from the spec: a fresh session, Idle, with no turns yet.\<close>

definition new_session :: "image_reference \<Rightarrow> session" where
  "new_session img = \<lparr>target = img, history = [], state = Idle, emitted = [], model_calls = 0\<rparr>"

text \<open>Modelled from the spec: session start, Idle to AwaitingModel by appending the initial user turn.\<close>

definition start :: "core_env \<Rightarrow> session \<Rightarrow> session" where
  "start env s =
     (if state s = Idle
      then (emit EvUser (prompt env) (append_turn User (Text (prompt env)) s))\<lparr>state := AwaitingModel\<rparr>
      else s)"

text \<open>
  Modelled from the spec: the transition to Failed, emitting \<^verbatim>\<open>session_end\<close> with the
  failure reason.
\<close>

definition fail_session :: "string \<Rightarrow> session \<Rightarrow> session" where
  "fail_session reason s = (emit EvSessionEnd reason s)\<lparr>state := Failed\<rparr>"

text \<open>
  Modelled from the spec: the transition to Complete, emitting \<^verbatim>\<open>session_end\<close> with the
  final hypothesis summary.
\<close>

definition complete_session :: "string \<Rightarrow> session \<Rightarrow> session" where
  "complete_session summary s = (emit EvSessionEnd summary s)\<lparr>state := Complete\<rparr>"

text \<open>
  Modelled from the spec: DispatchingTool. The request yields exactly one ToolResult, a
  \<^verbatim>\<open>tool\<close> turn is appended, \<^verbatim>\<open>tool_result\<close> is emitted (and \<^verbatim>\<open>new_image\<close> after
  it when the result carries an image), and the state returns to AwaitingModel.
\<close>

definition dispatch :: "core_env \<Rightarrow> tool_call_request \<Rightarrow> session \<Rightarrow> session" where
  "dispatch env rq s =
     (let r = execute env (target s) rq;
          s1 = emit EvToolResult (outcome_text r) (append_turn Tool (Result r) s);
          s2 = (case result_payload r of
                  ImagePayload i \<Rightarrow> emit EvNewImage (handle i) s1
                | TextPayload t \<Rightarrow> s1)
      in s2\<lparr>state := AwaitingModel\<rparr>)"

text \<open>
  Modelled from the spec: AwaitingModel, one call of the Model Client on the history and the
  handling of its response. The \<^verbatim>\<open>tool_call\<close> event carries the tool's name; the
  rendering of the arguments as text is left out.
\<close>

definition model_turn :: "core_env \<Rightarrow> session \<Rightarrow> session" where
  "model_turn env s =
     (let s0 = s\<lparr>model_calls := Suc (model_calls s)\<rparr>
      in case model_client env (history s) of
           Reasoning t \<Rightarrow>
             (let s1 = emit EvAgentThought t (append_turn Model (Text t) s0)
              in if is_final env t then complete_session t s1 else s1)
         | ToolCall rq \<Rightarrow>
             dispatch env rq
               ((emit EvToolCall (tool_name rq) (append_turn Model (Request rq) s0))
                  \<lparr>state := DispatchingTool\<rparr>)
         | ModelFailed \<Rightarrow> fail_session ''model error'' s0)"

text \<open>
  Modelled from the spec: the turn loop with its turn-budget guard. The number is the budget
  that remains; a session still awaiting the model when none remains is forced to Failed.
\<close>

fun turn_loop :: "core_env \<Rightarrow> nat \<Rightarrow> session \<Rightarrow> session" where
  "turn_loop env 0 s =
     (if state s = AwaitingModel then fail_session ''turn limit exceeded'' s else s)"
| "turn_loop env (Suc n) s =
     (if state s = AwaitingModel then turn_loop env n (model_turn env s) else s)"

text \<open>Modelled from the spec: one session from start to a terminal state.\<close>

definition run_session :: "core_env \<Rightarrow> image_reference \<Rightarrow> session" where
  "run_session env img = turn_loop env (max_turns env) (start env (new_session img))"

section \<open>Concrete states and requests\<close>

text \<open>
  Values at which the theorems below are instantiated: an observer whose socket has opened,
  the same observer with a file chosen and the traces of an earlier investigation, an upload
  boundary that answers with a reference, and a core with a crop and a search tool whose model
  never concludes.
\<close>

definition demo_file :: js_file where
  "demo_file = \<lparr>name = ''a.png'', bytes = [137, 80, 78, 71]\<rparr>"

definition opened :: app where
  "opened = \<lparr>connected = True, logs = [], imageFile = None, previewUrl = None,
     zoomedImage = None, loading = False, autoScroll = True, wsRef = Some 0,
     sockets = (\<lambda>i. None)(0 \<mapsto>
       \<lparr>ws_url = ''ws://localhost:8000/ws'', readyState = OPEN, sent = []\<rparr>),
     next_socket = 1\<rparr>"

definition ready :: app where
  "ready = opened\<lparr>imageFile := Some demo_file, previewUrl := Some ''blob:1'',
     zoomedImage := Some ''http://localhost:8000/crops/old.png'',
     logs := [\<lparr>type = JStr ''system'', content = JStr ''earlier verdict'', timestamp = ''09:59:00''\<rparr>]\<rparr>"

definition demo_upload :: "http_request \<Rightarrow> fetch_outcome" where
  "demo_upload rq = Responded (Some (JObj [(''file_path'', JStr ''uploads/a.png'')]))"

definition demo_env :: core_env where
  "demo_env = \<lparr>registry = (\<lambda>n. if n = ''crop'' then Some CropTool
                               else if n = ''search'' then Some SearchTool else None),
     model_client = (\<lambda>h. Reasoning ''still looking''), search_client = (\<lambda>q. None),
     is_final = (\<lambda>t. False), derive_handle = (\<lambda>i r. handle i @ ''-crop''),
     shown_width = 500, shown_height = 500, top_n = 3, max_turns = 10,
     prompt = ''Where was this taken?''\<rparr>"

definition demo_image :: image_reference where
  "demo_image = \<lparr>handle = ''uploads/a.png'', width = 2000, height = 2000\<rparr>"

definition demo_session :: session where
  "demo_session = start demo_env (new_session demo_image)"

definition outside_request :: tool_call_request where
  "outside_request = \<lparr>tool_name = ''crop'', arguments =
     [(''region'', AMap [(''x'', ANum 900), (''y'', ANum (- 50)), (''w'', ANum 100), (''h'', ANum 0)])]\<rparr>"

definition unknown_request :: tool_call_request where
  "unknown_request = \<lparr>tool_name = ''teleport'', arguments = []\<rparr>"

section \<open>Connecting\<close>

lemma connect_when_open: "current_open a \<Longrightarrow> connect a = a"
  by (simp add: connect_def)

lemma run_only_connect: "current_open a \<Longrightarrow> \<forall>e\<in>set es. e = Connect \<Longrightarrow> run a es = a"
  unfolding run_def
  by (induction es) (simp_all add: connect_when_open)

lemma opened_reached: "run initial [Connect, WsOpen 0] = opened"
  by (simp add: run_def initial_def connect_def current_open_def onopen_def
      set_readyState_def opened_def)

text \<open>
  Claim C10: \<^verbatim>\<open>connect\<close> is idempotent on an open connection. When the socket held in
  \<^verbatim>\<open>wsRef.current\<close> is OPEN, \<^verbatim>\<open>connect\<close> returns the state it was given: no socket is
  created and nothing of the observer's state changes, the log list and the connected flag
  included; and so does any number of calls in a row.
\<close>

theorem connect_idempotent_on_open:
  assumes "wsRef a = Some i" and "sockets a i = Some ws" and "readyState ws = OPEN"
  shows "connect a = a \<and> ((\<forall>e\<in>set es. e = Connect) \<longrightarrow> run a es = a)"
proof -
  have "current_open a"
    using assms by (simp add: current_open_def)
  then show ?thesis
    using connect_when_open run_only_connect by blast
qed

theorem connect_idempotent_on_open_witness:
  "wsRef opened = Some 0
   \<and> sockets opened 0 = Some \<lparr>ws_url = ''ws://localhost:8000/ws'', readyState = OPEN, sent = []\<rparr>
   \<and> readyState \<lparr>ws_url = ''ws://localhost:8000/ws'', readyState = OPEN, sent = []\<rparr> = OPEN
   \<and> connect opened = opened
   \<and> run opened [Connect, Connect] = opened"
proof -
  have h1: "wsRef opened = Some 0"
    by (simp add: opened_def)
  have h2: "sockets opened 0 = Some \<lparr>ws_url = ''ws://localhost:8000/ws'', readyState = OPEN, sent = []\<rparr>"
    by (simp add: opened_def)
  have h3: "readyState \<lparr>ws_url = ''ws://localhost:8000/ws'', readyState = OPEN, sent = []\<rparr> = OPEN"
    by simp
  from connect_idempotent_on_open [OF h1 h2 h3, of "[Connect, Connect]"]
  have "connect opened = opened" and "run opened [Connect, Connect] = opened"
    by simp_all
  with h1 h2 h3 show ?thesis by blast
qed

section \<open>Starting an investigation: the protocol\<close>

lemma resume_open:
  assumes "wsRef b = Some i" and "sockets b i = Some ws" and "readyState ws = OPEN"
    and "get_prop data ''file_path'' = Inr ref"
  shows "startInvestigation_resume now (Responded (Some data)) b =
           b\<lparr>sockets := (sockets b)(i \<mapsto> ws\<lparr>sent := sent ws @ [JObj [(''file_path'', ref)]]\<rparr>)\<rparr>"
  using assms by (simp add: startInvestigation_resume_def ws_send_def)

lemma sent_on_upload_failed: "sent_on (upload_failed now b) j = sent_on b j"
  by (simp add: upload_failed_def addLog_def sent_on_def)

lemma resume_not_open_cases:
  assumes "\<not> current_open b"
  shows "startInvestigation_resume now outcome b = upload_failed now b
         \<or> startInvestigation_resume now outcome b = b"
  using assms
  by (simp add: startInvestigation_resume_def ws_send_def current_open_def map_upd_triv
      split: fetch_outcome.splits option.splits sum.splits readyState.splits)

lemma resume_not_open:
  assumes "\<not> current_open b"
  shows "sent_on (startInvestigation_resume now outcome b) j = sent_on b j"
  using resume_not_open_cases [OF assms, of now outcome]
  by (auto simp: sent_on_upload_failed)

text \<open>
  Claim C5: an investigation is started by a two-step protocol. With an image selected and the
  observer connected, \<^verbatim>\<open>startInvestigation\<close> issues one POST of the image file to the
  upload boundary, takes the \<^verbatim>\<open>file_path\<close> field of the JSON response as the image
  reference, and sends the single message \<^verbatim>\<open>{file_path: reference}\<close> on the socket.
  With no image selected or the observer not connected it returns at once: no request, no
  message, no change of state. Whatever happened while the upload was awaited, a response
  carrying \<^verbatim>\<open>file_path\<close> puts exactly that one frame on the current socket if it is
  OPEN, and when the socket in \<^verbatim>\<open>wsRef.current\<close> is not OPEN no frame is
  transmitted on any socket.
\<close>

theorem startInvestigation_protocol:
  "(imageFile a = None \<or> \<not> connected a \<longrightarrow>
      startInvestigation_begin a = (a, None) \<and> startInvestigation now upload a = a)
   \<and> (imageFile a = Some f \<and> connected a \<longrightarrow>
        snd (startInvestigation_begin a) =
          Some \<lparr>http_method = ''POST'', http_url = ''http://localhost:8000/upload'',
                form_data = [(''file'', f)]\<rparr>)
   \<and> (imageFile a = Some f \<and> connected a
        \<and> wsRef a = Some i \<and> sockets a i = Some ws \<and> readyState ws = OPEN
        \<and> upload \<lparr>http_method = ''POST'', http_url = ''http://localhost:8000/upload'',
                   form_data = [(''file'', f)]\<rparr> = Responded (Some (JObj kvs))
        \<and> map_of kvs ''file_path'' = Some ref \<longrightarrow>
      startInvestigation now upload a =
        a\<lparr>loading := True, logs := [], zoomedImage := None,
          sockets := (sockets a)(i \<mapsto> ws\<lparr>sent := sent ws @ [JObj [(''file_path'', ref)]]\<rparr>)\<rparr>)
   \<and> (wsRef b = Some i \<and> sockets b i = Some ws \<and> readyState ws = OPEN
        \<and> map_of kvs ''file_path'' = Some ref \<longrightarrow>
      startInvestigation_resume now (Responded (Some (JObj kvs))) b =
        b\<lparr>sockets := (sockets b)(i \<mapsto> ws\<lparr>sent := sent ws @ [JObj [(''file_path'', ref)]]\<rparr>)\<rparr>)
   \<and> (\<not> current_open b \<longrightarrow>
        (\<forall>j. sent_on (startInvestigation_resume now outcome b) j = sent_on b j))"
  by (auto simp: startInvestigation_def startInvestigation_begin_def resume_open resume_not_open
      split: option.splits)

theorem startInvestigation_protocol_witness:
  "imageFile initial = None
   \<and> startInvestigation ''10:00:00'' demo_upload initial = initial
   \<and> imageFile ready = Some demo_file \<and> connected ready \<and> wsRef ready = Some 0
   \<and> snd (startInvestigation_begin ready) =
       Some \<lparr>http_method = ''POST'', http_url = ''http://localhost:8000/upload'',
             form_data = [(''file'', demo_file)]\<rparr>
   \<and> sent_on ready 0 = []
   \<and> sent_on (startInvestigation ''10:00:00'' demo_upload ready) 0
       = [JObj [(''file_path'', JStr ''uploads/a.png'')]]
   \<and> sent_on (startInvestigation_resume ''10:00:04''
                 (Responded (Some (JObj [(''file_path'', JStr ''uploads/a.png'')]))) opened) 0
       = [JObj [(''file_path'', JStr ''uploads/a.png'')]]
   \<and> \<not> current_open initial
   \<and> sent_on (startInvestigation_resume ''10:00:00'' Rejected initial) 0 = sent_on initial 0"
proof -
  let ?ws = "\<lparr>ws_url = ''ws://localhost:8000/ws'', readyState = OPEN, sent = []\<rparr>"
  let ?rq = "\<lparr>http_method = ''POST'', http_url = ''http://localhost:8000/upload'',
              form_data = [(''file'', demo_file)]\<rparr>"
  let ?kvs = "[(''file_path'', JStr ''uploads/a.png'')]"
  have g: "imageFile initial = None"
    by (simp add: initial_def)
  have r: "imageFile ready = Some demo_file" "connected ready" "wsRef ready = Some 0"
      "sockets ready 0 = Some ?ws" "readyState ?ws = OPEN"
      "demo_upload ?rq = Responded (Some (JObj ?kvs))"
      "map_of ?kvs ''file_path'' = Some (JStr ''uploads/a.png'')"
    by (simp_all add: ready_def opened_def demo_upload_def)
  have n: "\<not> current_open initial"
    by (simp add: current_open_def initial_def)
  have e: "sent_on ready 0 = []"
    by (simp add: sent_on_def ready_def opened_def)
  note t1 = startInvestigation_protocol [where a = initial and now = "''10:00:00''"
      and upload = demo_upload and b = initial and outcome = Rejected]
  note t2 = startInvestigation_protocol [where a = ready and now = "''10:00:00''"
      and upload = demo_upload and f = demo_file and i = 0 and ws = ?ws and kvs = ?kvs
      and ref = "JStr ''uploads/a.png''"]
  from t1 g have c1: "startInvestigation ''10:00:00'' demo_upload initial = initial"
    by blast
  from t1 n have c4: "sent_on (startInvestigation_resume ''10:00:00'' Rejected initial) 0
      = sent_on initial 0"
    by blast
  from t2 r have c2: "snd (startInvestigation_begin ready) = Some ?rq"
    by blast
  from t2 r have "startInvestigation ''10:00:00'' demo_upload ready =
      ready\<lparr>loading := True, logs := [], zoomedImage := None,
        sockets := (sockets ready)(0 \<mapsto> ?ws\<lparr>sent := sent ?ws @ [JObj ?kvs]\<rparr>)\<rparr>"
    by blast
  then have c3: "sent_on (startInvestigation ''10:00:00'' demo_upload ready) 0 = [JObj ?kvs]"
    by (simp add: sent_on_def)
  have o: "wsRef opened = Some 0" "sockets opened 0 = Some ?ws"
    by (simp_all add: opened_def)
  note t3 = startInvestigation_protocol [where b = opened and now = "''10:00:04''"
      and i = 0 and ws = ?ws and kvs = ?kvs and ref = "JStr ''uploads/a.png''"]
  from t3 o r(5,7) have "startInvestigation_resume ''10:00:04'' (Responded (Some (JObj ?kvs))) opened =
      opened\<lparr>sockets := (sockets opened)(0 \<mapsto> ?ws\<lparr>sent := sent ?ws @ [JObj ?kvs]\<rparr>)\<rparr>"
    by blast
  then have c5: "sent_on (startInvestigation_resume ''10:00:04''
      (Responded (Some (JObj ?kvs))) opened) 0 = [JObj ?kvs]"
    by (simp add: sent_on_def)
  from g c1 r(1,2,3) c2 e c3 c5 n c4 show ?thesis
    by blast
qed

text \<open>
  Claim C7: starting a new investigation discards the prior session state the observer holds.
  With an image selected and the observer connected, the state in which the upload request is
  issued has an empty log list and no zoomed image; nothing but these and the loading flag
  is changed.
\<close>

theorem startInvestigation_resets:
  assumes "imageFile a = Some f" and "connected a"
  shows "startInvestigation_begin a =
           (a\<lparr>loading := True, logs := [], zoomedImage := None\<rparr>,
            Some \<lparr>http_method = ''POST'', http_url = ''http://localhost:8000/upload'',
                  form_data = [(''file'', f)]\<rparr>)
         \<and> logs (fst (startInvestigation_begin a)) = []
         \<and> zoomedImage (fst (startInvestigation_begin a)) = None"
  using assms by (simp add: startInvestigation_begin_def)

theorem startInvestigation_resets_witness:
  "imageFile ready = Some demo_file \<and> connected ready
   \<and> logs ready \<noteq> [] \<and> zoomedImage ready \<noteq> None
   \<and> logs (fst (startInvestigation_begin ready)) = []
   \<and> zoomedImage (fst (startInvestigation_begin ready)) = None"
proof -
  have h1: "imageFile ready = Some demo_file" and h2: "connected ready"
    by (simp_all add: ready_def opened_def)
  have p: "logs ready \<noteq> []" "zoomedImage ready \<noteq> None"
    by (simp_all add: ready_def opened_def)
  from startInvestigation_resets [OF h1 h2]
  have "logs (fst (startInvestigation_begin ready)) = []"
    and "zoomedImage (fst (startInvestigation_begin ready)) = None"
    by blast+
  with h1 h2 p show ?thesis by blast
qed

section \<open>Incoming messages\<close>

text \<open>
  Claim C6: the handler of incoming messages dispatches on the event kind. For a message
  object, a \<^verbatim>\<open>new_image\<close> event with a \<^verbatim>\<open>url\<close> path sets the displayed zoomed
  image to the server origin followed by the path and appends one \<^verbatim>\<open>tool_result\<close>
  entry; a \<^verbatim>\<open>session_end\<close> event clears the loading flag and appends one
  \<^verbatim>\<open>system\<close> entry carrying the event's content; an event of any other kind appends
  one entry of that kind carrying its content.
\<close>

theorem onmessage_dispatch:
  "(map_of kvs ''type'' = Some (JStr ''new_image'') \<and> map_of kvs ''url'' = Some (JStr path) \<longrightarrow>
      onmessage now (Some (JObj kvs)) a =
        Inr (a\<lparr>zoomedImage := Some (''http://localhost:8000'' @ path),
               logs := logs a @ [\<lparr>type = JStr ''tool_result'',
                                   content = JStr ''Received High-Res Crop.'', timestamp = now\<rparr>]\<rparr>))
   \<and> (map_of kvs ''type'' = Some (JStr ''session_end'') \<longrightarrow>
      onmessage now (Some (JObj kvs)) a =
        Inr (a\<lparr>loading := False,
               logs := logs a @ [\<lparr>type = JStr ''system'',
                                   content = field (JObj kvs) ''content'', timestamp = now\<rparr>]\<rparr>))
   \<and> (field (JObj kvs) ''type'' \<noteq> JStr ''new_image''
        \<and> field (JObj kvs) ''type'' \<noteq> JStr ''session_end'' \<longrightarrow>
      onmessage now (Some (JObj kvs)) a =
        Inr (a\<lparr>logs := logs a @ [\<lparr>type = field (JObj kvs) ''type'',
                                   content = field (JObj kvs) ''content'', timestamp = now\<rparr>]\<rparr>))"
  by (simp add: onmessage_def addLog_def field_def split: option.splits)

theorem onmessage_dispatch_witness:
  "onmessage ''10:00:05'' (Some (JObj [(''type'', JStr ''new_image''), (''url'', JStr ''/crops/c1.png'')]))
       (opened\<lparr>loading := True\<rparr>) =
     Inr (opened\<lparr>loading := True, zoomedImage := Some ''http://localhost:8000/crops/c1.png'',
            logs := [\<lparr>type = JStr ''tool_result'', content = JStr ''Received High-Res Crop.'',
                      timestamp = ''10:00:05''\<rparr>]\<rparr>)
   \<and> onmessage ''10:00:09'' (Some (JObj [(''type'', JStr ''session_end''), (''content'', JStr ''Lisbon'')]))
       (opened\<lparr>loading := True\<rparr>) =
     Inr (opened\<lparr>loading := False,
            logs := [\<lparr>type = JStr ''system'', content = JStr ''Lisbon'', timestamp = ''10:00:09''\<rparr>]\<rparr>)
   \<and> onmessage ''10:00:03'' (Some (JObj [(''type'', JStr ''agent_thought''), (''content'', JStr ''a tram'')]))
       (opened\<lparr>loading := True\<rparr>) =
     Inr (opened\<lparr>loading := True,
            logs := [\<lparr>type = JStr ''agent_thought'', content = JStr ''a tram'',
                      timestamp = ''10:00:03''\<rparr>]\<rparr>)"
proof -
  let ?a = "opened\<lparr>loading := True\<rparr>"
  have l: "logs ?a = []"
    by (simp add: opened_def)
  from onmessage_dispatch [where kvs = "[(''type'', JStr ''new_image''), (''url'', JStr ''/crops/c1.png'')]"
      and path = "''/crops/c1.png''" and now = "''10:00:05''" and a = ?a]
  have c1: "onmessage ''10:00:05'' (Some (JObj [(''type'', JStr ''new_image''), (''url'', JStr ''/crops/c1.png'')])) ?a =
     Inr (opened\<lparr>loading := True, zoomedImage := Some ''http://localhost:8000/crops/c1.png'',
            logs := [\<lparr>type = JStr ''tool_result'', content = JStr ''Received High-Res Crop.'',
                      timestamp = ''10:00:05''\<rparr>]\<rparr>)"
    by (simp add: l)
  from onmessage_dispatch [where kvs = "[(''type'', JStr ''session_end''), (''content'', JStr ''Lisbon'')]"
      and now = "''10:00:09''" and a = ?a]
  have c2: "onmessage ''10:00:09'' (Some (JObj [(''type'', JStr ''session_end''), (''content'', JStr ''Lisbon'')])) ?a =
     Inr (opened\<lparr>loading := False,
            logs := [\<lparr>type = JStr ''system'', content = JStr ''Lisbon'', timestamp = ''10:00:09''\<rparr>]\<rparr>)"
    by (simp add: l field_def)
  from onmessage_dispatch [where kvs = "[(''type'', JStr ''agent_thought''), (''content'', JStr ''a tram'')]"
      and now = "''10:00:03''" and a = ?a]
  have c3: "onmessage ''10:00:03'' (Some (JObj [(''type'', JStr ''agent_thought''), (''content'', JStr ''a tram'')])) ?a =
     Inr (opened\<lparr>loading := True,
            logs := [\<lparr>type = JStr ''agent_thought'', content = JStr ''a tram'',
                      timestamp = ''10:00:03''\<rparr>]\<rparr>)"
    by (simp add: l field_def)
  from c1 c2 c3 show ?thesis by blast
qed

section \<open>The log list\<close>


















section \<open>Log lines\<close>

lemma LogEntry_default:
  assumes "to_string (type l) = Inr key"
    and "map_of styles key = None"
    and "map_of object_prototype key = None"
  shows "LogEntry l =
           Inr \<lparr>className = ''text-gray-400 whitespace-pre-wrap break-words font-mono leading-relaxed'',
                children = content l\<rparr>"
  using assms by (simp add: LogEntry_def styles_lookup_def js_or_def)

lemma LogEntry_children: "LogEntry l = Inr el \<Longrightarrow> children el = content l"
  by (auto simp: LogEntry_def split: sum.splits)

lemma LogEntry_throws: "to_string (type l) = Inl e \<Longrightarrow> LogEntry l = Inl e"
  by (simp add: LogEntry_def)

text \<open>
  Claim C9: \<^verbatim>\<open>LogEntry\<close> is total over arbitrary event kinds, and an entry whose type is
  outside the enumerated style set is rendered with the default style. Where the component
  returns, the entry's content is the element's child, and a type whose string names neither a
  style nor a property of \<^verbatim>\<open>Object.prototype\<close> gets the default class (the lemmas
  above). But \<^verbatim>\<open>styles[type]\<close> also finds inherited properties: for the type
  \<^verbatim>\<open>constructor\<close>, which is no style, it is the function \<^verbatim>\<open>Object\<close>, a truthy
  value, and the class attribute becomes that function's source text in place of
  \<^verbatim>\<open>text-gray-400\<close>.
\<close>

theorem LogEntry_inherited_key:
  "LogEntry \<lparr>type = JStr ''constructor'', content = JStr ''hello'', timestamp = ''12:00:00''\<rparr>
     = Inr \<lparr>className =
          ''function Object() { [native code] } whitespace-pre-wrap break-words font-mono leading-relaxed'',
        children = JStr ''hello''\<rparr>"
  by (simp add: LogEntry_def styles_lookup_def styles_def object_prototype_def js_or_def)

section \<open>The crop tool\<close>

lemma clamp_valid_id:
  assumes "valid_subregion src r"
  shows "clamp_region src r = r"
  using assms by (simp add: clamp_region_def valid_subregion_def Let_def min_def max_def)

lemma clamp_valid:
  assumes "1 \<le> width src" and "1 \<le> height src"
  shows "valid_subregion src (clamp_region src r)"
  using assms by (simp add: clamp_region_def valid_subregion_def Let_def min_def max_def)

lemma dispatch_state: "state (dispatch env rq s) = AwaitingModel"
  by (simp add: dispatch_def Let_def)

text \<open>
  Claim C1: the region a crop request executes is obtained from the model-space region by the
  proportional mapping \<^verbatim>\<open>true_coord = model_coord * (true_dimension / shown_dimension)\<close>,
  each axis with its own dimensions: it is that mapped region brought within the image, and
  the mapped region itself whenever that lies within the image with an extent of at least one
  pixel. For the region \<^verbatim>\<open>{x:0,y:0,w:100,h:100}\<close>, shown at 500x500 and stored at
  2000x2000, the executed region is \<^verbatim>\<open>{x:0,y:0,w:400,h:400}\<close> and the derived image
  is 400 by 400.
\<close>

theorem crop_proportional:
  assumes "0 < shown_width env" and "0 < shown_height env"
  shows "crop_region env src r =
           clamp_region src
             \<lparr>reg_x = reg_x r * (width src / shown_width env),
              reg_y = reg_y r * (height src / shown_height env),
              reg_w = reg_w r * (width src / shown_width env),
              reg_h = reg_h r * (height src / shown_height env)\<rparr>
         \<and> (valid_subregion src (rescale_region env src r) \<longrightarrow>
              crop_region env src r =
                \<lparr>reg_x = reg_x r * (width src / shown_width env),
                 reg_y = reg_y r * (height src / shown_height env),
                 reg_w = reg_w r * (width src / shown_width env),
                 reg_h = reg_h r * (height src / shown_height env)\<rparr>)
         \<and> (shown_width env = 500 \<and> shown_height env = 500
              \<and> width src = 2000 \<and> height src = 2000 \<longrightarrow>
              crop_region env src \<lparr>reg_x = 0, reg_y = 0, reg_w = 100, reg_h = 100\<rparr>
                = \<lparr>reg_x = 0, reg_y = 0, reg_w = 400, reg_h = 400\<rparr>
              \<and> crop_tool env src
                  \<lparr>tool_name = n, arguments =
                     [(''region'', AMap [(''x'', ANum 0), (''y'', ANum 0),
                                         (''w'', ANum 100), (''h'', ANum 100)])]\<rparr>
                = \<lparr>origin = n, success = True, result_payload = ImagePayload
                     \<lparr>handle = derive_handle env src
                                 \<lparr>reg_x = 0, reg_y = 0, reg_w = 400, reg_h = 400\<rparr>,
                      width = 400, height = 400\<rparr>\<rparr>)"
proof (intro conjI impI)
  show "crop_region env src r =
           clamp_region src
             \<lparr>reg_x = reg_x r * (width src / shown_width env),
              reg_y = reg_y r * (height src / shown_height env),
              reg_w = reg_w r * (width src / shown_width env),
              reg_h = reg_h r * (height src / shown_height env)\<rparr>"
    by (simp add: crop_region_def rescale_region_def rescale_def)
next
  assume "valid_subregion src (rescale_region env src r)"
  then have "crop_region env src r = rescale_region env src r"
    by (simp add: crop_region_def clamp_valid_id)
  then show "crop_region env src r =
                \<lparr>reg_x = reg_x r * (width src / shown_width env),
                 reg_y = reg_y r * (height src / shown_height env),
                 reg_w = reg_w r * (width src / shown_width env),
                 reg_h = reg_h r * (height src / shown_height env)\<rparr>"
    by (simp add: rescale_region_def rescale_def)
next
  assume d: "shown_width env = 500 \<and> shown_height env = 500
              \<and> width src = 2000 \<and> height src = 2000"
  then show c: "crop_region env src \<lparr>reg_x = 0, reg_y = 0, reg_w = 100, reg_h = 100\<rparr>
                = \<lparr>reg_x = 0, reg_y = 0, reg_w = 400, reg_h = 400\<rparr>"
    by (simp add: crop_region_def rescale_region_def rescale_def clamp_region_def Let_def)
  have "region_arg [(''region'', AMap [(''x'', ANum 0), (''y'', ANum 0),
                                       (''w'', ANum 100), (''h'', ANum 100)])]
        = Some \<lparr>reg_x = 0, reg_y = 0, reg_w = 100, reg_h = 100\<rparr>"
    by (simp add: region_arg_def num_field_def)
  then show "crop_tool env src
                  \<lparr>tool_name = n, arguments =
                     [(''region'', AMap [(''x'', ANum 0), (''y'', ANum 0),
                                         (''w'', ANum 100), (''h'', ANum 100)])]\<rparr>
                = \<lparr>origin = n, success = True, result_payload = ImagePayload
                     \<lparr>handle = derive_handle env src
                                 \<lparr>reg_x = 0, reg_y = 0, reg_w = 400, reg_h = 400\<rparr>,
                      width = 400, height = 400\<rparr>\<rparr>"
    using c by (simp add: crop_tool_def derive_def)
qed

theorem crop_proportional_witness:
  "0 < shown_width demo_env \<and> 0 < shown_height demo_env
   \<and> valid_subregion demo_image
        (rescale_region demo_env demo_image \<lparr>reg_x = 50, reg_y = 20, reg_w = 30, reg_h = 10\<rparr>)
   \<and> crop_region demo_env demo_image \<lparr>reg_x = 50, reg_y = 20, reg_w = 30, reg_h = 10\<rparr>
        = \<lparr>reg_x = 200, reg_y = 80, reg_w = 120, reg_h = 40\<rparr>
   \<and> shown_width demo_env = 500 \<and> shown_height demo_env = 500
   \<and> width demo_image = 2000 \<and> height demo_image = 2000
   \<and> crop_region demo_env demo_image \<lparr>reg_x = 0, reg_y = 0, reg_w = 100, reg_h = 100\<rparr>
        = \<lparr>reg_x = 0, reg_y = 0, reg_w = 400, reg_h = 400\<rparr>"
proof -
  let ?r = "\<lparr>reg_x = 50, reg_y = 20, reg_w = 30, reg_h = 10\<rparr>"
  have h: "0 < shown_width demo_env" "0 < shown_height demo_env"
    by (simp_all add: demo_env_def)
  have d: "shown_width demo_env = 500" "shown_height demo_env = 500"
      "width demo_image = 2000" "height demo_image = 2000"
    by (simp_all add: demo_env_def demo_image_def)
  have v: "valid_subregion demo_image (rescale_region demo_env demo_image ?r)"
    by (simp add: valid_subregion_def rescale_region_def rescale_def d)
  note t = crop_proportional [OF h, where src = demo_image and r = ?r]
  from t v have "crop_region demo_env demo_image ?r =
      \<lparr>reg_x = reg_x ?r * (width demo_image / shown_width demo_env),
       reg_y = reg_y ?r * (height demo_image / shown_height demo_env),
       reg_w = reg_w ?r * (width demo_image / shown_width demo_env),
       reg_h = reg_h ?r * (height demo_image / shown_height demo_env)\<rparr>"
    by blast
  then have c1: "crop_region demo_env demo_image ?r
      = \<lparr>reg_x = 200, reg_y = 80, reg_w = 120, reg_h = 40\<rparr>"
    by (simp add: d)
  from t d have c2: "crop_region demo_env demo_image \<lparr>reg_x = 0, reg_y = 0, reg_w = 100, reg_h = 100\<rparr>
      = \<lparr>reg_x = 0, reg_y = 0, reg_w = 400, reg_h = 400\<rparr>"
    by blast
  from h v c1 d c2 show ?thesis by blast
qed

text \<open>
  Claim C4: a crop request whose region lies outside the source image, or is negative or
  degenerate, is clamped and does not fail the session. For every region whatever, on an
  image of at least one pixel each way, the executed region is a valid sub-region of the
  source with an extent of at least one pixel; the tool returns success with a derived image
  reference of those dimensions, and the session is back in AwaitingModel.
\<close>

theorem crop_clamped:
  assumes "1 \<le> width (target s)" and "1 \<le> height (target s)"
    and "0 < shown_width env" and "0 < shown_height env"
    and "registry env (tool_name rq) = Some CropTool"
    and "region_arg (arguments rq) = Some r"
  shows "valid_subregion (target s) (crop_region env (target s) r)
         \<and> execute env (target s) rq =
             \<lparr>origin = tool_name rq, success = True,
              result_payload = ImagePayload (derive env (target s) (crop_region env (target s) r))\<rparr>
         \<and> 1 \<le> width (derive env (target s) (crop_region env (target s) r))
         \<and> 1 \<le> height (derive env (target s) (crop_region env (target s) r))
         \<and> width (derive env (target s) (crop_region env (target s) r)) \<le> width (target s)
         \<and> height (derive env (target s) (crop_region env (target s) r)) \<le> height (target s)
         \<and> state (dispatch env rq s) = AwaitingModel"
proof -
  have v: "valid_subregion (target s) (crop_region env (target s) r)"
    using assms(1,2) by (simp add: crop_region_def clamp_valid)
  have e: "execute env (target s) rq =
             \<lparr>origin = tool_name rq, success = True,
              result_payload = ImagePayload (derive env (target s) (crop_region env (target s) r))\<rparr>"
    using assms(5,6) by (simp add: execute_def crop_tool_def)
  from v have "1 \<le> width (derive env (target s) (crop_region env (target s) r))"
    and "1 \<le> height (derive env (target s) (crop_region env (target s) r))"
    and "width (derive env (target s) (crop_region env (target s) r)) \<le> width (target s)"
    and "height (derive env (target s) (crop_region env (target s) r)) \<le> height (target s)"
    by (simp_all add: derive_def valid_subregion_def)
  with v e dispatch_state show ?thesis by simp
qed

theorem crop_clamped_witness:
  "1 \<le> width (target demo_session) \<and> 1 \<le> height (target demo_session)
   \<and> 0 < shown_width demo_env \<and> 0 < shown_height demo_env
   \<and> registry demo_env (tool_name outside_request) = Some CropTool
   \<and> region_arg (arguments outside_request)
        = Some \<lparr>reg_x = 900, reg_y = - 50, reg_w = 100, reg_h = 0\<rparr>
   \<and> crop_region demo_env demo_image \<lparr>reg_x = 900, reg_y = - 50, reg_w = 100, reg_h = 0\<rparr>
        = \<lparr>reg_x = 1999, reg_y = 0, reg_w = 1, reg_h = 1\<rparr>
   \<and> valid_subregion demo_image \<lparr>reg_x = 1999, reg_y = 0, reg_w = 1, reg_h = 1\<rparr>
   \<and> state (dispatch demo_env outside_request demo_session) = AwaitingModel"
proof -
  let ?r = "\<lparr>reg_x = 900, reg_y = - 50, reg_w = 100, reg_h = 0\<rparr>"
  have tg: "target demo_session = demo_image"
    by (simp add: demo_session_def start_def new_session_def emit_def append_turn_def)
  have h: "1 \<le> width (target demo_session)" "1 \<le> height (target demo_session)"
      "0 < shown_width demo_env" "0 < shown_height demo_env"
      "registry demo_env (tool_name outside_request) = Some CropTool"
      "region_arg (arguments outside_request) = Some ?r"
    by (simp_all add: tg demo_image_def demo_env_def outside_request_def region_arg_def num_field_def)
  have c: "crop_region demo_env demo_image ?r = \<lparr>reg_x = 1999, reg_y = 0, reg_w = 1, reg_h = 1\<rparr>"
    by (simp add: crop_region_def rescale_region_def rescale_def clamp_region_def Let_def
        demo_env_def demo_image_def)
  from crop_clamped [OF h]
  have "valid_subregion (target demo_session) (crop_region demo_env (target demo_session) ?r)"
    and st: "state (dispatch demo_env outside_request demo_session) = AwaitingModel"
    by blast+
  then have "valid_subregion demo_image \<lparr>reg_x = 1999, reg_y = 0, reg_w = 1, reg_h = 1\<rparr>"
    by (simp add: tg c)
  with h c st show ?thesis by blast
qed

section \<open>The orchestrator\<close>

text \<open>
  Claim C2: a request whose tool name is not in the Tool Registry neither raises nor ends the
  session. Dispatching it appends exactly one \<^verbatim>\<open>tool\<close> turn holding a ToolResult marked
  failure with an explanatory payload, emits exactly one \<^verbatim>\<open>tool_result\<close> event, changes
  nothing else, and leaves the session in AwaitingModel; so does the model turn in which the
  model makes that request.
\<close>

theorem unknown_tool_recovers:
  assumes "registry env (tool_name rq) = None"
  shows "dispatch env rq s =
           s\<lparr>history := history s @
                [\<lparr>turn_role = Tool,
                  turn_body = Result \<lparr>origin = tool_name rq, success = False,
                                       result_payload = TextPayload (''unknown tool: '' @ tool_name rq)\<rparr>\<rparr>],
             emitted := emitted s @
                [\<lparr>ev_kind = EvToolResult, ev_content = ''unknown tool: '' @ tool_name rq\<rparr>],
             state := AwaitingModel\<rparr>
         \<and> (model_client env (history s) = ToolCall rq \<longrightarrow>
              state (model_turn env s) = AwaitingModel)"
  using assms
  by (simp add: dispatch_def execute_def Let_def append_turn_def emit_def outcome_text_def
      model_turn_def)

theorem unknown_tool_recovers_witness:
  "registry demo_env (tool_name unknown_request) = None
   \<and> state (dispatch demo_env unknown_request (demo_session\<lparr>state := DispatchingTool\<rparr>)) = AwaitingModel
   \<and> last (history (dispatch demo_env unknown_request (demo_session\<lparr>state := DispatchingTool\<rparr>)))
        = \<lparr>turn_role = Tool,
           turn_body = Result \<lparr>origin = ''teleport'', success = False,
                                result_payload = TextPayload ''unknown tool: teleport''\<rparr>\<rparr>
   \<and> last (emitted (dispatch demo_env unknown_request (demo_session\<lparr>state := DispatchingTool\<rparr>)))
        = \<lparr>ev_kind = EvToolResult, ev_content = ''unknown tool: teleport''\<rparr>
   \<and> model_client (demo_env\<lparr>model_client := (\<lambda>h. ToolCall unknown_request)\<rparr>) (history demo_session)
        = ToolCall unknown_request
   \<and> state (model_turn (demo_env\<lparr>model_client := (\<lambda>h. ToolCall unknown_request)\<rparr>) demo_session)
        = AwaitingModel"
proof -
  let ?s = "demo_session\<lparr>state := DispatchingTool\<rparr>"
  let ?env = "demo_env\<lparr>model_client := (\<lambda>h. ToolCall unknown_request)\<rparr>"
  have h: "registry demo_env (tool_name unknown_request) = None"
    by (simp add: demo_env_def unknown_request_def)
  have h': "registry ?env (tool_name unknown_request) = None"
    by (simp add: demo_env_def unknown_request_def)
  have m: "model_client ?env (history demo_session) = ToolCall unknown_request"
    by simp
  have n: "tool_name unknown_request = ''teleport''"
    by (simp add: unknown_request_def)
  from unknown_tool_recovers [OF h, of ?s]
  have d: "dispatch demo_env unknown_request ?s =
           ?s\<lparr>history := history ?s @
                [\<lparr>turn_role = Tool,
                  turn_body = Result \<lparr>origin = tool_name unknown_request, success = False,
                     result_payload = TextPayload (''unknown tool: '' @ tool_name unknown_request)\<rparr>\<rparr>],
             emitted := emitted ?s @
                [\<lparr>ev_kind = EvToolResult, ev_content = ''unknown tool: '' @ tool_name unknown_request\<rparr>],
             state := AwaitingModel\<rparr>"
    by blast
  have c1: "state (dispatch demo_env unknown_request ?s) = AwaitingModel"
    by (simp add: d)
  have c2: "last (history (dispatch demo_env unknown_request ?s))
        = \<lparr>turn_role = Tool,
           turn_body = Result \<lparr>origin = ''teleport'', success = False,
                                result_payload = TextPayload ''unknown tool: teleport''\<rparr>\<rparr>"
    by (simp add: d n)
  have c3: "last (emitted (dispatch demo_env unknown_request ?s))
        = \<lparr>ev_kind = EvToolResult, ev_content = ''unknown tool: teleport''\<rparr>"
    by (simp add: d n)
  from unknown_tool_recovers [OF h', of demo_session] m
  have c4: "state (model_turn ?env demo_session) = AwaitingModel"
    by blast
  from h c1 c2 c3 m c4 show ?thesis by blast
qed

lemma model_turn_continues:
  assumes "\<forall>h. model_client env h \<noteq> ModelFailed
               \<and> (\<forall>t. model_client env h = Reasoning t \<longrightarrow> \<not> is_final env t)"
    and "state s = AwaitingModel"
  shows "state (model_turn env s) = AwaitingModel
         \<and> model_calls (model_turn env s) = Suc (model_calls s)"
proof (cases "model_client env (history s)")
  case (Reasoning t)
  with assms(1) have "\<not> is_final env t" by metis
  with Reasoning assms(2) show ?thesis
    by (simp add: model_turn_def Let_def emit_def append_turn_def)
next
  case (ToolCall rq)
  then show ?thesis
    by (simp add: model_turn_def dispatch_def Let_def emit_def append_turn_def split: payload.splits)
next
  case ModelFailed
  with assms(1) show ?thesis by metis
qed

lemma funpow_model_turn:
  assumes "\<forall>h. model_client env h \<noteq> ModelFailed
               \<and> (\<forall>t. model_client env h = Reasoning t \<longrightarrow> \<not> is_final env t)"
    and "state s = AwaitingModel"
  shows "state ((model_turn env ^^ k) s) = AwaitingModel
         \<and> model_calls ((model_turn env ^^ k) s) = model_calls s + k"
proof (induction k)
  case 0
  then show ?case using assms(2) by simp
next
  case (Suc k)
  then show ?case
    using model_turn_continues [OF assms(1), of "(model_turn env ^^ k) s"] by simp
qed

lemma turn_loop_exhausts:
  assumes "\<forall>h. model_client env h \<noteq> ModelFailed
               \<and> (\<forall>t. model_client env h = Reasoning t \<longrightarrow> \<not> is_final env t)"
    and "state s = AwaitingModel"
  shows "turn_loop env n s = fail_session ''turn limit exceeded'' ((model_turn env ^^ n) s)"
  using assms(2)
proof (induction n arbitrary: s)
  case 0
  then show ?case by simp
next
  case (Suc n)
  have "state (model_turn env s) = AwaitingModel"
    using model_turn_continues [OF assms(1) Suc.prems] by simp
  then have "turn_loop env n (model_turn env s)
             = fail_session ''turn limit exceeded'' ((model_turn env ^^ n) (model_turn env s))"
    by (rule Suc.IH)
  then show ?case using Suc.prems by (simp add: funpow_swap1)
qed

lemma start_new:
  "state (start env (new_session img)) = AwaitingModel
   \<and> model_calls (start env (new_session img)) = 0"
  by (simp add: start_def new_session_def emit_def append_turn_def)

text \<open>
  Claim C3: a session whose model never produces a recognised final-answer marker and never
  fails is forced to Failed exactly at the turn limit. With the limit \<open>N\<close>, the session
  awaits the model after each of its first \<open>N\<close> calls, the run ends in Failed with the reason
  ``turn limit exceeded'' as its last event, and the Model Client has then been called \<open>N\<close>
  times: call \<open>N + 1\<close> never occurs.
\<close>

theorem turn_limit_forces_failed:
  assumes "\<forall>h. model_client env h \<noteq> ModelFailed
               \<and> (\<forall>t. model_client env h = Reasoning t \<longrightarrow> \<not> is_final env t)"
  shows "state (run_session env img) = Failed
         \<and> model_calls (run_session env img) = max_turns env
         \<and> last (emitted (run_session env img))
             = \<lparr>ev_kind = EvSessionEnd, ev_content = ''turn limit exceeded''\<rparr>
         \<and> (\<forall>k. state ((model_turn env ^^ k) (start env (new_session img))) = AwaitingModel
                \<and> model_calls ((model_turn env ^^ k) (start env (new_session img))) = k)
         \<and> run_session env img =
             fail_session ''turn limit exceeded''
               ((model_turn env ^^ max_turns env) (start env (new_session img)))"
proof -
  let ?s0 = "start env (new_session img)"
  have s0: "state ?s0 = AwaitingModel" "model_calls ?s0 = 0"
    using start_new by simp_all
  have run: "run_session env img =
      fail_session ''turn limit exceeded'' ((model_turn env ^^ max_turns env) ?s0)"
    unfolding run_session_def using assms s0(1) by (rule turn_loop_exhausts)
  have pow: "\<And>k. state ((model_turn env ^^ k) ?s0) = AwaitingModel
                \<and> model_calls ((model_turn env ^^ k) ?s0) = k"
    using funpow_model_turn [OF assms s0(1)] s0(2) by simp
  have "state (run_session env img) = Failed"
    by (simp add: run fail_session_def)
  moreover have "model_calls (run_session env img) = max_turns env"
    using pow [of "max_turns env"] by (simp add: run fail_session_def emit_def)
  moreover have "last (emitted (run_session env img))
      = \<lparr>ev_kind = EvSessionEnd, ev_content = ''turn limit exceeded''\<rparr>"
    by (simp add: run fail_session_def emit_def)
  ultimately show ?thesis using pow run by blast
qed

theorem turn_limit_forces_failed_witness:
  "(\<forall>h. model_client demo_env h \<noteq> ModelFailed
        \<and> (\<forall>t. model_client demo_env h = Reasoning t \<longrightarrow> \<not> is_final demo_env t))
   \<and> max_turns demo_env = 10
   \<and> state (run_session demo_env demo_image) = Failed
   \<and> model_calls (run_session demo_env demo_image) = 10"
proof -
  have h: "\<forall>h. model_client demo_env h \<noteq> ModelFailed
        \<and> (\<forall>t. model_client demo_env h = Reasoning t \<longrightarrow> \<not> is_final demo_env t)"
    by (simp add: demo_env_def)
  have m: "max_turns demo_env = 10"
    by (simp add: demo_env_def)
  from turn_limit_forces_failed [OF h, of demo_image]
  have "state (run_session demo_env demo_image) = Failed"
    and "model_calls (run_session demo_env demo_image) = max_turns demo_env"
    by blast+
  with h m show ?thesis by simp
qed

end
